theory Spec2Isabelle
  imports Main "HOL-Library.AList"
begin

section \<open>Connection: the entity metadata registry\<close>

text \<open>
  The embedding of \<^verbatim>\<open>packages/core/src/classes/connection/connection.ts\<close>.
  A thrown exception is the \<open>Inl\<close> side of a sum, one constructor for each
  \<^verbatim>\<open>throw\<close> of the class. \<open>Thrown x\<close> is an exception \<open>x\<close> raised by a collaborator
  (the metadata builder); \<open>TypeError_undefined\<close> is what JavaScript raises when a method
  is read from \<^verbatim>\<open>undefined\<close>, which is the value of \<^verbatim>\<open>_entityMetadatas\<close> before
  the first successful \<^verbatim>\<open>connect()\<close>.
\<close>

datatype 'x conn_error =
    AlreadyActiveConnection
  | NoSuchEntity string
  | CannotFindAttributes string
  | CouldNotGetUniqueAttributes
  | TypeError_undefined
  | Thrown 'x

text \<open>
  An \<^verbatim>\<open>EntityTarget\<close> is a class; the connection reads only its \<^verbatim>\<open>name\<close>.
\<close>

record entityTarget =
  target_name :: string

text \<open>
  Modelled from the spec: the type \<^verbatim>\<open>DynamoEntitySchemaPrimaryKey\<close>
  (\<^verbatim>\<open>metadata/entity-metadata\<close>) is not among the sources. The code reads
  \<^verbatim>\<open>primaryKey.metadata._interpolations\<close>, which may be absent (\<^verbatim>\<open>??\<close>), enumerates
  it with \<^verbatim>\<open>Object.keys\<close> and calls \<^verbatim>\<open>includes(attributeName)\<close> on each value: an
  object whose keys are the key names and whose values are arrays of strings, the
  attribute names that the key's pattern refers to. The object is an association list
  (key order as \<^verbatim>\<open>Object.keys\<close> gives it), looked up with \<open>map_of\<close>.
\<close>

record primaryKeyMetadata =
  interpolations :: "(string \<times> string list) list option"

record dynamoEntitySchemaPrimaryKey =
  metadata :: primaryKeyMetadata

record entitySchema =
  primaryKey :: dynamoEntitySchemaPrimaryKey

text \<open>
  Modelled from the spec: the classes \<^verbatim>\<open>AttributeMetadata\<close> and
  \<^verbatim>\<open>EntityMetadata\<close> are not among the sources. Of an attribute the connection reads
  \<^verbatim>\<open>name\<close>, \<^verbatim>\<open>unique\<close> (absent, or the key schema of the attribute's lock record, as
  the return type of \<^verbatim>\<open>getUniqueAttributesForEntity\<close> says) and \<^verbatim>\<open>autoUpdate\<close>; of
  an entity, \<^verbatim>\<open>target\<close>, \<^verbatim>\<open>schema.primaryKey\<close> and \<^verbatim>\<open>attributes\<close>.
\<close>

record attributeMetadata =
  attr_name :: string
  unique :: "dynamoEntitySchemaPrimaryKey option"
  autoUpdate :: bool

record entityMetadata =
  target :: entityTarget
  schema :: entitySchema
  attributes :: "attributeMetadata list"

text \<open>
  A JavaScript \<^verbatim>\<open>Map\<close> keeps its keys in the order of their first insertion;
  \<^verbatim>\<open>set\<close> on a key that is present replaces the value in place. That is
  \<open>AList.update\<close>. \<^verbatim>\<open>new Map(pairs)\<close> sets the pairs from left to right.
\<close>

type_synonym ('k, 'v) js_map = "('k \<times> 'v) list"

definition map_set :: "('k, 'v) js_map \<Rightarrow> 'k \<times> 'v \<Rightarrow> ('k, 'v) js_map" where
  "map_set m kv = AList.update (fst kv) (snd kv) m"

definition new_Map :: "('k \<times> 'v) list \<Rightarrow> ('k, 'v) js_map" where
  "new_Map pairs = foldl map_set [] pairs"

definition map_get :: "('k, 'v) js_map \<Rightarrow> 'k \<Rightarrow> 'v option" where
  "map_get m k = map_of m k"

text \<open>
  The fields of the class that the modelled methods read or write. \<open>entityMetadatas\<close>
  is \<open>None\<close> while the private field is still \<^verbatim>\<open>undefined\<close>.
\<close>

record 'ent connection =
  conn_name :: string
  options_entities :: "'ent list"
  entityMetadatas :: "(string, entityMetadata) js_map option"
  isConnected :: bool

text \<open>
  The constructor, for the fields above: \<^verbatim>\<open>name\<close> defaults to \<^verbatim>\<open>'default'\<close>,
  \<^verbatim>\<open>isConnected\<close> starts false and \<^verbatim>\<open>_entityMetadatas\<close> is not assigned.
\<close>

definition new_Connection :: "string option \<Rightarrow> 'ent list \<Rightarrow> 'ent connection" where
  "new_Connection name_opt ents =
     \<lparr> conn_name = (case name_opt of None \<Rightarrow> ''default'' | Some n \<Rightarrow> n),
       options_entities = ents,
       entityMetadatas = None,
       isConnected = False \<rparr>"

text \<open>
  \<^verbatim>\<open>buildMetadatas()\<close> hands \<^verbatim>\<open>options.entities\<close> to the
  \<^verbatim>\<open>ConnectionMetadataBuilder\<close>, which is not among the sources: the builder is the
  parameter \<open>builder\<close>, and it may throw.
\<close>

definition buildMetadatas ::
  "('ent connection \<Rightarrow> 'ent list \<Rightarrow> 'x conn_error + entityMetadata list)
   \<Rightarrow> 'ent connection \<Rightarrow> 'x conn_error + entityMetadata list" where
  "buildMetadatas builder c = builder c (options_entities c)"

text \<open>
  \<^verbatim>\<open>connect()\<close>. The state is the connection together with the world \<open>w\<close> that the
  callback \<^verbatim>\<open>destroySelf\<close> acts on (the connection manager's registry). The result is
  the error thrown, or \<open>()\<close> for \<^verbatim>\<open>return this\<close>, with the state afterwards.
\<close>

definition connect ::
  "('ent connection \<Rightarrow> 'ent list \<Rightarrow> 'x conn_error + entityMetadata list)
   \<Rightarrow> (string \<Rightarrow> 'w \<Rightarrow> 'w)
   \<Rightarrow> 'ent connection \<times> 'w
   \<Rightarrow> ('x conn_error + unit) \<times> 'ent connection \<times> 'w" where
  "connect builder destroySelf s =
     (case s of (c, w) \<Rightarrow>
        if isConnected c then (Inl AlreadyActiveConnection, c, w)
        else (case buildMetadatas builder c of
                Inl err \<Rightarrow> (Inl err, c, destroySelf (conn_name c) w)
              | Inr metas \<Rightarrow>
                  (Inr (),
                   c\<lparr> entityMetadatas :=
                        Some (new_Map (map (\<lambda>entityMeta. (target_name (target entityMeta), entityMeta)) metas)),
                      isConnected := True \<rparr>,
                   w)))"

text \<open>
  \<^verbatim>\<open>getEntityByTarget\<close>: a lookup by class name. \<^verbatim>\<open>!metadata\<close> holds exactly when
  the key is absent, since a metadata object is never falsy.
\<close>

definition getEntityByTarget ::
  "'ent connection \<Rightarrow> entityTarget \<Rightarrow> 'x conn_error + entityMetadata" where
  "getEntityByTarget c entityClass =
     (case entityMetadatas c of
        None \<Rightarrow> Inl TypeError_undefined
      | Some m \<Rightarrow>
          (case map_get m (target_name entityClass) of
             None \<Rightarrow> Inl (NoSuchEntity (target_name entityClass))
           | Some md \<Rightarrow> Inr md))"

text \<open>
  \<^verbatim>\<open>hasMetadata\<close> is \<^verbatim>\<open>!!this.getEntityByTarget(entityClass)\<close>: the lookup's exception
  passes through, and the double negation of an object is \<^verbatim>\<open>true\<close>.
\<close>

definition truthy_object :: "entityMetadata \<Rightarrow> bool" where
  "truthy_object md = True"

definition hasMetadata :: "'ent connection \<Rightarrow> entityTarget \<Rightarrow> 'x conn_error + bool" where
  "hasMetadata c entityClass =
     (case getEntityByTarget c entityClass of
        Inl err \<Rightarrow> Inl err
      | Inr md \<Rightarrow> Inr (\<not> \<not> truthy_object md))"

definition getAttributesForEntity ::
  "'ent connection \<Rightarrow> entityTarget \<Rightarrow> 'x conn_error + attributeMetadata list" where
  "getAttributesForEntity c entityClass =
     (case entityMetadatas c of
        None \<Rightarrow> Inl TypeError_undefined
      | Some m \<Rightarrow>
          (case map_get m (target_name entityClass) of
             None \<Rightarrow> Inl (CannotFindAttributes (target_name entityClass))
           | Some attributesMap \<Rightarrow> Inr (attributes attributesMap)))"

text \<open>
  The method \<^verbatim>\<open>isUsedForPrimaryKey\<close> of the class. \<^verbatim>\<open>Object.keys(o).some(f)\<close> is
  \<open>list_ex f\<close> over the keys, \<^verbatim>\<open>o[key]\<close> is the lookup (always defined for a key of
  \<^verbatim>\<open>o\<close>), and \<^verbatim>\<open>includes\<close> is membership in the array.
\<close>

definition isUsedForPrimaryKey :: "dynamoEntitySchemaPrimaryKey \<Rightarrow> string \<Rightarrow> bool" where
  "isUsedForPrimaryKey pk attributeName =
     (let primaryKeyInterpolations =
            (case interpolations (metadata pk) of None \<Rightarrow> [] | Some i \<Rightarrow> i)
      in list_ex (\<lambda>key.
            case map_of primaryKeyInterpolations key of
              None \<Rightarrow> False
            | Some currInterpolation \<Rightarrow> attributeName \<in> set currInterpolation)
          (map fst primaryKeyInterpolations))"

text \<open>
  Modelled from the spec: the helper \<^verbatim>\<open>isUsedForPrimaryKey\<close> that
  \<^verbatim>\<open>getUniqueAttributesForEntity\<close> imports from \<^verbatim>\<open>helpers/is-used-for-primary-key\<close>
  is not among the sources. The spec gives it the contract of the method of the same
  name (whether an attribute takes part in the composition of a key), so it is that
  function.
\<close>

definition isUsedForPrimaryKey_helper :: "dynamoEntitySchemaPrimaryKey \<Rightarrow> string \<Rightarrow> bool" where
  "isUsedForPrimaryKey_helper pk attributeName = isUsedForPrimaryKey pk attributeName"

text \<open>
  \<^verbatim>\<open>getUniqueAttributesForEntity\<close>. The second \<^verbatim>\<open>throw\<close> guards a falsy metadata,
  which the lookup never returns; it is kept as the source has it. In the filter,
  \<^verbatim>\<open>attr?.unique\<close> is truthy exactly when the property is present.
\<close>

definition getUniqueAttributesForEntity ::
  "'ent connection \<Rightarrow> entityTarget \<Rightarrow> 'x conn_error + attributeMetadata list" where
  "getUniqueAttributesForEntity c entityClass =
     (case getEntityByTarget c entityClass of
        Inl err \<Rightarrow> Inl err
      | Inr entityMetadata \<Rightarrow>
          if \<not> truthy_object entityMetadata then Inl CouldNotGetUniqueAttributes
          else (case getAttributesForEntity c entityClass of
                  Inl err \<Rightarrow> Inl err
                | Inr attrs \<Rightarrow>
                    Inr (filter (\<lambda>attr.
                           unique attr \<noteq> None \<and>
                           \<not> isUsedForPrimaryKey_helper (primaryKey (schema entityMetadata)) (attr_name attr))
                         attrs)))"

section \<open>DocumentClientTransactionTransformer\<close>

text \<open>
  The embedding of
  \<^verbatim>\<open>packages/core/src/classes/transformer/document-client-transaction-transformer.ts\<close>.
  A DynamoDB request object is a list of property names with their values, in property
  order; the values stay abstract.
\<close>

type_synonym 'v obj = "(string \<times> 'v) list"

text \<open>
  A transaction item is an object with one of the properties \<^verbatim>\<open>create\<close>,
  \<^verbatim>\<open>update\<close>, \<^verbatim>\<open>delete\<close> or \<^verbatim>\<open>get\<close>, holding the fields that the transformer
  destructures (entity class \<open>'e\<close>, primary key \<open>'k\<close>, body \<open>'b\<close>, options \<open>'o\<close>).
  The parameter is typed \<^verbatim>\<open>any\<close> at run time, so \<open>OtherShape\<close> stands for every
  value that has none of the four properties.
\<close>

datatype ('e, 'k, 'b, 'o) transactionItem =
    AddCreate 'e 'o
  | AddUpdate 'e 'k 'b 'o
  | AddDelete 'e 'k 'o
  | AddGet 'e 'k 'o
  | OtherShape

text \<open>
  Modelled from the spec: the guards of \<^verbatim>\<open>transaction/type-guards\<close> are not among
  the sources. Each recognises its own variant of the tagged item and no other.
\<close>

fun isTransactionAddCreateItem :: "('e, 'k, 'b, 'o) transactionItem \<Rightarrow> bool" where
  "isTransactionAddCreateItem (AddCreate item options) = True"
| "isTransactionAddCreateItem _ = False"

fun isTransactionAddUpdateItem :: "('e, 'k, 'b, 'o) transactionItem \<Rightarrow> bool" where
  "isTransactionAddUpdateItem (AddUpdate item pk body options) = True"
| "isTransactionAddUpdateItem _ = False"

fun isTransactionAddDeleteItem :: "('e, 'k, 'b, 'o) transactionItem \<Rightarrow> bool" where
  "isTransactionAddDeleteItem (AddDelete item pk options) = True"
| "isTransactionAddDeleteItem _ = False"

fun isTransactionAddGetItem :: "('e, 'k, 'b, 'o) transactionItem \<Rightarrow> bool" where
  "isTransactionAddGetItem (AddGet item pk options) = True"
| "isTransactionAddGetItem _ = False"

text \<open>
  The entries of a \<^verbatim>\<open>TransactWriteItemList\<close> and of a \<^verbatim>\<open>TransactGetItemList\<close>.
\<close>

datatype 'v writeItem =
    ConditionCheck "'v obj"
  | Put "'v obj"
  | Delete "'v obj"
  | Update "'v obj"

datatype 'v getItem = Get "'v obj"

text \<open>
  What the low order transformers return. \<^verbatim>\<open>toDynamoPutItem\<close> gives one put input
  or a list of write items (told apart by \<^verbatim>\<open>isWriteTransactionItemList\<close>);
  \<^verbatim>\<open>toDynamoUpdateItem\<close> and \<^verbatim>\<open>toDynamoDeleteItem\<close> give one input or a lazy
  loader \<open>'l\<close> (told apart by \<^verbatim>\<open>isLazyTransactionWriteItemListLoader\<close>). The loader
  is an object that reads the store only when its own method is called; the transformer
  never calls it, so it stays an opaque value.
\<close>

datatype 'v putResult =
    PutInput "'v obj"
  | WriteItemList "'v writeItem list"

datatype ('v, 'l) lazyResult =
    Input "'v obj"
  | LazyLoader 'l

fun isWriteTransactionItemList :: "'v putResult \<Rightarrow> bool" where
  "isWriteTransactionItemList (WriteItemList l) = True"
| "isWriteTransactionItemList (PutInput p) = False"

fun isLazyTransactionWriteItemListLoader :: "('v, 'l) lazyResult \<Rightarrow> bool" where
  "isLazyTransactionWriteItemListLoader (LazyLoader l) = True"
| "isLazyTransactionWriteItemListLoader (Input i) = False"

text \<open>
  The class extends \<^verbatim>\<open>LowOrderTransformers\<close>, which is not among the sources: its four
  methods are the fields of a record, each returning its value or the exception \<open>'x\<close>
  it throws.
\<close>

record ('e, 'k, 'b, 'o, 'v, 'l, 'x) lowOrderTransformers =
  toDynamoPutItem :: "'e \<Rightarrow> 'o \<Rightarrow> 'x + 'v putResult"
  toDynamoUpdateItem :: "'e \<Rightarrow> 'k \<Rightarrow> 'b \<Rightarrow> 'o \<Rightarrow> 'x + ('v, 'l) lazyResult"
  toDynamoDeleteItem :: "'e \<Rightarrow> 'k \<Rightarrow> 'o \<Rightarrow> 'x + ('v, 'l) lazyResult"
  toDynamoGetItem :: "'e \<Rightarrow> 'k \<Rightarrow> 'o \<Rightarrow> 'x + 'v obj"

datatype ('ti, 'x) transform_error =
    InvalidTransactionReadItemError 'ti
  | InvalidTransactionWriteItemError 'ti
  | Raised 'x

text \<open>
  Modelled from the spec: the helper \<^verbatim>\<open>dropProp\<close> (\<^verbatim>\<open>helpers/drop-prop\<close>) is not
  among the sources. It returns the object without the named property: the other
  properties keep their values and their order.
\<close>

definition dropProp :: "'v obj \<Rightarrow> string \<Rightarrow> 'v obj" where
  "dropProp item propToDrop = filter (\<lambda>kv. fst kv \<noteq> propToDrop) item"

text \<open>
  \<^verbatim>\<open>Array.prototype.reduce\<close> with a callback that may throw: the exception ends the
  loop and is the result. The accumulator, mutated in place by the source, is passed on.
\<close>

fun reduce :: "('acc \<Rightarrow> 'a \<Rightarrow> 'err + 'acc) \<Rightarrow> 'acc \<Rightarrow> 'a list \<Rightarrow> 'err + 'acc" where
  "reduce f acc [] = Inr acc"
| "reduce f acc (x # xs) =
     (case f acc x of Inl err \<Rightarrow> Inl err | Inr acc' \<Rightarrow> reduce f acc' xs)"

record 'v readAcc =
  getTransactionItemList :: "'v getItem list"

record ('v, 'l) writeAcc =
  transactionItemList :: "'v writeItem list"
  lazyTransactionWriteItemListLoader :: "'l list"

text \<open>The callback of \<^verbatim>\<open>innerTransformTransactionReadItems\<close>.\<close>

fun read_step ::
  "('e, 'k, 'b, 'o, 'v, 'l, 'x) lowOrderTransformers \<Rightarrow> 'v readAcc
   \<Rightarrow> ('e, 'k, 'b, 'o) transactionItem
   \<Rightarrow> (('e, 'k, 'b, 'o) transactionItem, 'x) transform_error + 'v readAcc" where
  "read_step T acc (AddGet item pk options) =
     (case toDynamoGetItem T item pk options of
        Inl x \<Rightarrow> Inl (Raised x)
      | Inr dynamoGetItemInput \<Rightarrow>
          Inr (acc\<lparr> getTransactionItemList :=
                      getTransactionItemList acc @ [Get dynamoGetItemInput] \<rparr>))"
| "read_step T acc transactionItem = Inl (InvalidTransactionReadItemError transactionItem)"

definition innerTransformTransactionReadItems ::
  "('e, 'k, 'b, 'o, 'v, 'l, 'x) lowOrderTransformers
   \<Rightarrow> ('e, 'k, 'b, 'o) transactionItem list
   \<Rightarrow> (('e, 'k, 'b, 'o) transactionItem, 'x) transform_error + 'v readAcc" where
  "innerTransformTransactionReadItems T transactionItems =
     reduce (read_step T) \<lparr> getTransactionItemList = [] \<rparr> transactionItems"

text \<open>
  The callback of \<^verbatim>\<open>innerTransformTransactionWriteItems\<close>, one clause for each
  branch of the source, in its order.
\<close>

fun write_step ::
  "('e, 'k, 'b, 'o, 'v, 'l, 'x) lowOrderTransformers \<Rightarrow> ('v, 'l) writeAcc
   \<Rightarrow> ('e, 'k, 'b, 'o) transactionItem
   \<Rightarrow> (('e, 'k, 'b, 'o) transactionItem, 'x) transform_error + ('v, 'l) writeAcc" where
  "write_step T acc (AddCreate item options) =
     (case toDynamoPutItem T item options of
        Inl x \<Rightarrow> Inl (Raised x)
      | Inr dynamoPutItemInput \<Rightarrow>
          (case dynamoPutItemInput of
             PutInput p \<Rightarrow>
               Inr (acc\<lparr> transactionItemList := transactionItemList acc @ [Put p] \<rparr>)
           | WriteItemList l \<Rightarrow>
               Inr (acc\<lparr> transactionItemList := transactionItemList acc @ l \<rparr>)))"
| "write_step T acc (AddUpdate item pk body options) =
     (case toDynamoUpdateItem T item pk body options of
        Inl x \<Rightarrow> Inl (Raised x)
      | Inr dynamoUpdateItemInput \<Rightarrow>
          (case dynamoUpdateItemInput of
             Input u \<Rightarrow>
               Inr (acc\<lparr> transactionItemList :=
                           transactionItemList acc @ [Update (dropProp u ''ReturnValues'')] \<rparr>)
           | LazyLoader l \<Rightarrow>
               Inr (acc\<lparr> lazyTransactionWriteItemListLoader :=
                           lazyTransactionWriteItemListLoader acc @ [l] \<rparr>)))"
| "write_step T acc (AddDelete item pk options) =
     (case toDynamoDeleteItem T item pk options of
        Inl x \<Rightarrow> Inl (Raised x)
      | Inr dynamoDeleteItemInput \<Rightarrow>
          (case dynamoDeleteItemInput of
             Input d \<Rightarrow>
               Inr (acc\<lparr> transactionItemList := transactionItemList acc @ [Delete d] \<rparr>)
           | LazyLoader l \<Rightarrow>
               Inr (acc\<lparr> lazyTransactionWriteItemListLoader :=
                           lazyTransactionWriteItemListLoader acc @ [l] \<rparr>)))"
| "write_step T acc transactionItem = Inl (InvalidTransactionWriteItemError transactionItem)"

definition innerTransformTransactionWriteItems ::
  "('e, 'k, 'b, 'o, 'v, 'l, 'x) lowOrderTransformers
   \<Rightarrow> ('e, 'k, 'b, 'o) transactionItem list
   \<Rightarrow> (('e, 'k, 'b, 'o) transactionItem, 'x) transform_error + ('v, 'l) writeAcc" where
  "innerTransformTransactionWriteItems T transactionItems =
     reduce (write_step T)
       \<lparr> transactionItemList = [], lazyTransactionWriteItemListLoader = [] \<rparr>
       transactionItems"

text \<open>
  The classification that the spec describes, stated for one item on its own: the
  transformer's result for a write item is either a list of operations (one operation,
  or the list that \<^verbatim>\<open>toDynamoPutItem\<close> returned) or a deferred expansion. \<open>None\<close>
  is an item that has no result: it is not a write item, or its transformer throws.
\<close>

datatype ('v, 'l) classified =
    Operations "'v writeItem list"
  | Deferred 'l

fun classify ::
  "('e, 'k, 'b, 'o, 'v, 'l, 'x) lowOrderTransformers \<Rightarrow> ('e, 'k, 'b, 'o) transactionItem
   \<Rightarrow> ('v, 'l) classified option" where
  "classify T (AddCreate item options) =
     (case toDynamoPutItem T item options of
        Inl x \<Rightarrow> None
      | Inr (PutInput p) \<Rightarrow> Some (Operations [Put p])
      | Inr (WriteItemList l) \<Rightarrow> Some (Operations l))"
| "classify T (AddUpdate item pk body options) =
     (case toDynamoUpdateItem T item pk body options of
        Inl x \<Rightarrow> None
      | Inr (Input u) \<Rightarrow> Some (Operations [Update (dropProp u ''ReturnValues'')])
      | Inr (LazyLoader l) \<Rightarrow> Some (Deferred l))"
| "classify T (AddDelete item pk options) =
     (case toDynamoDeleteItem T item pk options of
        Inl x \<Rightarrow> None
      | Inr (Input d) \<Rightarrow> Some (Operations [Delete d])
      | Inr (LazyLoader l) \<Rightarrow> Some (Deferred l))"
| "classify T transactionItem = None"

fun operations_part :: "('v, 'l) classified \<Rightarrow> 'v writeItem list" where
  "operations_part (Operations ops) = ops"
| "operations_part (Deferred l) = []"

fun deferred_part :: "('v, 'l) classified \<Rightarrow> 'l list" where
  "deferred_part (Operations ops) = []"
| "deferred_part (Deferred l) = [l]"

section \<open>The write transaction as a whole\<close>

text \<open>
  Modelled from the spec: the resolving and finalizing phases of the transaction
  composer (the transaction manager that calls the transformer) and the request
  executor are not among the sources. The spec gives the composer three phases. In
  \<^emph>\<open>Collecting\<close> the items are transformed (the function of the source above). In
  \<^emph>\<open>Resolving\<close> each pending expansion is resolved, with one read each, and its
  operations are appended to the final list, after the operations that were resolved
  directly; if a read fails the whole composition fails and nothing is submitted. The
  \<^emph>\<open>Finalized\<close> list is handed to the executor, which runs it as one batch bounded by
  the store's maximum item count for a transaction: exceeding it must fail fast with a
  size-limit error before submission.

  The collaborators are parameters: \<open>resolve\<close> performs the read of one expansion on the
  world \<open>'w\<close> and may fail, \<open>submit\<close> is the executor's transactional write, and
  \<open>maxItems\<close> is the store's bound, for which the spec names no number.
\<close>

datatype ('ti, 'x) compose_error =
    TransformFailed "('ti, 'x) transform_error"
  | ResolutionFailed 'x
  | SizeLimitExceeded nat

fun resolve_all ::
  "('l \<Rightarrow> 'w \<Rightarrow> ('x + 'v writeItem list) \<times> 'w) \<Rightarrow> 'l list \<Rightarrow> 'w
   \<Rightarrow> ('x + 'v writeItem list) \<times> 'w" where
  "resolve_all resolve [] w = (Inr [], w)"
| "resolve_all resolve (l # ls) w =
     (case resolve l w of
        (Inl x, w') \<Rightarrow> (Inl x, w')
      | (Inr ops, w') \<Rightarrow>
          (case resolve_all resolve ls w' of
             (Inl x, w'') \<Rightarrow> (Inl x, w'')
           | (Inr rest, w'') \<Rightarrow> (Inr (ops @ rest), w'')))"

definition compose_write_transaction ::
  "('e, 'k, 'b, 'o, 'v, 'l, 'x) lowOrderTransformers
   \<Rightarrow> ('l \<Rightarrow> 'w \<Rightarrow> ('x + 'v writeItem list) \<times> 'w)
   \<Rightarrow> nat
   \<Rightarrow> ('v writeItem list \<Rightarrow> 'w \<Rightarrow> 'r \<times> 'w)
   \<Rightarrow> ('e, 'k, 'b, 'o) transactionItem list \<Rightarrow> 'w
   \<Rightarrow> ((('e, 'k, 'b, 'o) transactionItem, 'x) compose_error + 'r) \<times> 'w" where
  "compose_write_transaction T resolve maxItems submit items w =
     (case innerTransformTransactionWriteItems T items of
        Inl err \<Rightarrow> (Inl (TransformFailed err), w)
      | Inr acc \<Rightarrow>
          (case resolve_all resolve (lazyTransactionWriteItemListLoader acc) w of
             (Inl x, w') \<Rightarrow> (Inl (ResolutionFailed x), w')
           | (Inr resolved, w') \<Rightarrow>
               (let operations = transactionItemList acc @ resolved
                in if maxItems < length operations
                   then (Inl (SizeLimitExceeded (length operations)), w')
                   else (case submit operations w' of (res, w'') \<Rightarrow> (Inr res, w'')))))"

section \<open>Example data\<close>

text \<open>
  A \<^verbatim>\<open>User\<close> entity keyed by \<^verbatim>\<open>id\<close>, with a unique \<^verbatim>\<open>email\<close>, a plain
  \<^verbatim>\<open>age\<close>, and \<^verbatim>\<open>id\<close> itself marked unique.
\<close>

definition example_primaryKey :: dynamoEntitySchemaPrimaryKey where
  "example_primaryKey =
     \<lparr> metadata = \<lparr> interpolations = Some [(''PK'', [''id'']), (''SK'', [''id'', ''kind''])] \<rparr> \<rparr>"

definition example_bare_primaryKey :: dynamoEntitySchemaPrimaryKey where
  "example_bare_primaryKey = \<lparr> metadata = \<lparr> interpolations = None \<rparr> \<rparr>"

definition example_lock_key :: "string \<Rightarrow> dynamoEntitySchemaPrimaryKey" where
  "example_lock_key a = \<lparr> metadata = \<lparr> interpolations = Some [(''PK'', [a])] \<rparr> \<rparr>"

definition example_attributes :: "attributeMetadata list" where
  "example_attributes =
     [ \<lparr> attr_name = ''id'', unique = Some (example_lock_key ''id''), autoUpdate = False \<rparr>,
       \<lparr> attr_name = ''email'', unique = Some (example_lock_key ''email''), autoUpdate = False \<rparr>,
       \<lparr> attr_name = ''age'', unique = None, autoUpdate = False \<rparr> ]"

definition example_user :: entityMetadata where
  "example_user =
     \<lparr> target = \<lparr> target_name = ''User'' \<rparr>,
       schema = \<lparr> primaryKey = example_primaryKey \<rparr>,
       attributes = example_attributes \<rparr>"

text \<open>
  A builder that returns the metadata it is given, one that throws, and a connection
  manager whose registry is the list of the connection names it holds.
\<close>

definition example_builder ::
  "entityMetadata connection \<Rightarrow> entityMetadata list \<Rightarrow> string conn_error + entityMetadata list" where
  "example_builder c ents = Inr ents"

definition example_failing_builder ::
  "entityMetadata connection \<Rightarrow> entityMetadata list \<Rightarrow> string conn_error + entityMetadata list" where
  "example_failing_builder c ents = Inl (Thrown ''invalid key template'')"

definition example_destroySelf :: "string \<Rightarrow> string list \<Rightarrow> string list" where
  "example_destroySelf n w = removeAll n w"

definition example_connection :: "entityMetadata connection" where
  "example_connection = new_Connection None [example_user]"

definition example_connected :: "entityMetadata connection" where
  "example_connected =
     example_connection\<lparr> entityMetadatas := Some [(''User'', example_user)], isConnected := True \<rparr>"

text \<open>
  Transformers over strings: creating a \<^verbatim>\<open>User\<close> yields the put with one lock record,
  an update of \<^verbatim>\<open>email\<close> and a delete of a \<^verbatim>\<open>User\<close> are deferred, and an entity
  called \<^verbatim>\<open>Unknown\<close> makes the put transformer throw.
\<close>

definition example_transformers ::
  "(string, string, string, unit, string, string, string) lowOrderTransformers" where
  "example_transformers =
     \<lparr> toDynamoPutItem = (\<lambda>item options.
          if item = ''Unknown'' then Inl ''no such entity''
          else if item = ''User''
            then Inr (WriteItemList [Put [(''Item'', item)], Put [(''Item'', ''lock'')]])
          else Inr (PutInput [(''Item'', item)])),
       toDynamoUpdateItem = (\<lambda>item pk body options.
          if body = ''email'' then Inr (LazyLoader pk)
          else Inr (Input [(''Key'', pk), (''ReturnValues'', ''ALL_NEW''), (''UpdateExpression'', body)])),
       toDynamoDeleteItem = (\<lambda>item pk options.
          if item = ''User'' then Inr (LazyLoader pk) else Inr (Input [(''Key'', pk)])),
       toDynamoGetItem = (\<lambda>item pk options. Inr [(''Key'', pk)]) \<rparr>"

text \<open>
  A world that counts the reads made and records the batches submitted; a resolver that
  reads once and yields the delete of the main record with the delete of its lock; and
  an executor that records the batch.
\<close>

record example_world =
  reads :: nat
  submitted :: "string writeItem list list"

definition example_resolve ::
  "string \<Rightarrow> example_world \<Rightarrow> (string + string writeItem list) \<times> example_world" where
  "example_resolve l w =
     (Inr [Delete [(''Key'', l)], Delete [(''Key'', ''lock'')]], w\<lparr> reads := Suc (reads w) \<rparr>)"

definition example_submit ::
  "string writeItem list \<Rightarrow> example_world \<Rightarrow> unit \<times> example_world" where
  "example_submit ops w = ((), w\<lparr> submitted := submitted w @ [ops] \<rparr>)"

section \<open>Properties of the registry\<close>

subsection \<open>The map and the key patterns\<close>

text \<open>
  A \<^verbatim>\<open>Map\<close> built from a list of pairs answers a lookup with the last pair of that
  key, and holds no key that the list does not hold.
\<close>

lemma map_of_map_set: "map_of (map_set m kv) = (map_of m)(fst kv \<mapsto> snd kv)"
  by (simp add: map_set_def update_conv')

lemma map_of_foldl_map_set:
  "map_of (foldl map_set m pairs) k =
     (case map_of (rev pairs) k of None \<Rightarrow> map_of m k | Some v \<Rightarrow> Some v)"
proof (induction pairs arbitrary: m)
  case Nil
  show ?case by simp
next
  case (Cons p ps)
  show ?case
    by (cases p) (simp add: Cons.IH map_of_map_set map_add_def[symmetric] split: option.splits, auto simp: map_add_def split: option.splits)
qed

lemma map_get_new_Map: "map_get (new_Map pairs) k = map_of (rev pairs) k"
  by (simp add: map_get_def new_Map_def map_of_foldl_map_set split: option.splits)

lemma map_get_new_Map_None:
  "map_get (new_Map pairs) k = None \<longleftrightarrow> k \<notin> fst ` set pairs"
  by (simp add: map_get_new_Map map_of_eq_None_iff)

lemma map_get_new_Map_Some:
  "map_get (new_Map pairs) k = Some v \<Longrightarrow> (k, v) \<in> set pairs"
  using map_of_SomeD[of "rev pairs" k v] by (simp add: map_get_new_Map)

lemma registry_lookup_None:
  "map_get (new_Map (map (\<lambda>entityMeta. (target_name (target entityMeta), entityMeta)) metas)) n = None
     \<longleftrightarrow> n \<notin> set (map (\<lambda>md. target_name (target md)) metas)"
  by (simp add: map_get_new_Map_None image_image)

lemma registry_lookup_Some:
  "map_get (new_Map (map (\<lambda>entityMeta. (target_name (target entityMeta), entityMeta)) metas)) n = Some md
     \<Longrightarrow> md \<in> set metas \<and> target_name (target md) = n"
  by (drule map_get_new_Map_Some) auto

lemma registry_lookup_distinct:
  assumes "distinct (map (\<lambda>md. target_name (target md)) metas)" "md \<in> set metas"
  shows "map_get (new_Map (map (\<lambda>entityMeta. (target_name (target entityMeta), entityMeta)) metas))
           (target_name (target md)) = Some md"
proof -
  let ?ps = "map (\<lambda>entityMeta. (target_name (target entityMeta), entityMeta)) metas"
  have "map fst ?ps = map (\<lambda>md. target_name (target md)) metas" by (simp add: comp_def)
  with assms(1) have "distinct (map fst (rev ?ps))" by (simp add: rev_map[symmetric] comp_def)
  moreover from assms(2) have "(target_name (target md), md) \<in> set (rev ?ps)" by auto
  ultimately have "map_of (rev ?ps) (target_name (target md)) = Some md"
    by (rule map_of_is_SomeI)
  then show ?thesis by (simp only: map_get_new_Map)
qed

text \<open>
  The method \<^verbatim>\<open>isUsedForPrimaryKey\<close> in relational form: some key of the
  interpolations object has a pattern that holds the attribute name.
\<close>

lemma list_ex_lookup:
  "list_ex (\<lambda>key. case map_of m key of None \<Rightarrow> False | Some cur \<Rightarrow> a \<in> set cur) (map fst m)
     \<longleftrightarrow> (\<exists>key pat. map_of m key = Some pat \<and> a \<in> set pat)"
proof
  assume "list_ex (\<lambda>key. case map_of m key of None \<Rightarrow> False | Some cur \<Rightarrow> a \<in> set cur) (map fst m)"
  then obtain key where "case map_of m key of None \<Rightarrow> False | Some cur \<Rightarrow> a \<in> set cur"
    by (auto simp: list_ex_iff)
  then show "\<exists>key pat. map_of m key = Some pat \<and> a \<in> set pat"
    by (cases "map_of m key") auto
next
  assume "\<exists>key pat. map_of m key = Some pat \<and> a \<in> set pat"
  then obtain key pat where kp: "map_of m key = Some pat" "a \<in> set pat" by blast
  from kp(1) have "key \<in> set (map fst m)"
    by (metis map_of_SomeD image_eqI fst_conv set_map)
  moreover from kp have "case map_of m key of None \<Rightarrow> False | Some cur \<Rightarrow> a \<in> set cur"
    by simp
  ultimately show "list_ex (\<lambda>key. case map_of m key of None \<Rightarrow> False | Some cur \<Rightarrow> a \<in> set cur) (map fst m)"
    unfolding list_ex_iff by blast
qed

lemma isUsedForPrimaryKey_iff:
  "isUsedForPrimaryKey pk a \<longleftrightarrow>
     (\<exists>m key pat. interpolations (metadata pk) = Some m \<and> map_of m key = Some pat \<and> a \<in> set pat)"
  unfolding isUsedForPrimaryKey_def Let_def list_ex_lookup
  by (cases "interpolations (metadata pk)") auto

subsection \<open>connect\<close>

lemma connect_success:
  "\<not> isConnected c \<Longrightarrow> buildMetadatas builder c = Inr metas \<Longrightarrow>
   connect builder destroySelf (c, w) =
     (Inr (),
      c\<lparr> entityMetadatas :=
           Some (new_Map (map (\<lambda>entityMeta. (target_name (target entityMeta), entityMeta)) metas)),
         isConnected := True \<rparr>,
      w)"
  by (simp add: connect_def)

lemma connect_Inr_isConnected:
  "connect builder destroySelf (c, w) = (Inr u, c1, w1) \<Longrightarrow> isConnected c1"
  by (auto simp: connect_def split: if_splits sum.splits)

lemma example_connect:
  "connect example_builder example_destroySelf (example_connection, [''default''])
     = (Inr (), example_connected, [''default''])"
  by (simp add: connect_def buildMetadatas_def example_builder_def example_connection_def
        example_connected_def new_Connection_def new_Map_def map_set_def example_user_def)

text \<open>
  Before the first successful \<^verbatim>\<open>connect()\<close> the map is \<^verbatim>\<open>undefined\<close>, and a
  lookup raises the \<^verbatim>\<open>TypeError\<close> of JavaScript, whatever the entity.
\<close>

lemma getEntityByTarget_before_connect:
  "entityMetadatas c = None \<Longrightarrow> getEntityByTarget c t = Inl TypeError_undefined"
  by (simp add: getEntityByTarget_def)

subsection \<open>Claims on the connection\<close>

text \<open>
  Claim C3. For an entity type that is registered in the connection (the lookup
  \<^verbatim>\<open>getEntityByTarget\<close> returns its metadata \<open>md\<close>),
  \<^verbatim>\<open>getUniqueAttributesForEntity\<close> returns exactly the attributes of \<open>md\<close>, in
  their order, whose \<^verbatim>\<open>unique\<close> property is set and whose name occurs in no
  interpolation pattern of the primary key of \<open>md\<close>. So no attribute that the primary
  key uses is in the result.
\<close>

theorem getUniqueAttributesForEntity_spec:
  fixes c :: "'ent connection"
  assumes "getEntityByTarget c t = (Inr md :: 'x conn_error + entityMetadata)"
  shows "(getUniqueAttributesForEntity c t :: 'x conn_error + attributeMetadata list) =
      Inr (filter (\<lambda>attr. unique attr \<noteq> None \<and>
              \<not> (\<exists>m key pat. interpolations (metadata (primaryKey (schema md))) = Some m
                     \<and> map_of m key = Some pat \<and> attr_name attr \<in> set pat))
            (attributes md))
    \<and> (\<forall>us. (getUniqueAttributesForEntity c t :: 'x conn_error + attributeMetadata list) = Inr us
          \<longrightarrow> (\<forall>attr \<in> set us.
                 \<not> isUsedForPrimaryKey (primaryKey (schema md)) (attr_name attr)))"
proof -
  from assms obtain m where m: "entityMetadatas c = Some m" "map_get m (target_name t) = Some md"
    by (auto simp: getEntityByTarget_def split: option.splits)
  have attrs: "(getAttributesForEntity c t :: 'x conn_error + attributeMetadata list) = Inr (attributes md)"
    by (simp add: getAttributesForEntity_def m)
  have eq: "(getUniqueAttributesForEntity c t :: 'x conn_error + attributeMetadata list) =
      Inr (filter (\<lambda>attr. unique attr \<noteq> None \<and>
              \<not> isUsedForPrimaryKey (primaryKey (schema md)) (attr_name attr)) (attributes md))"
    by (simp add: getUniqueAttributesForEntity_def assms attrs truthy_object_def
          isUsedForPrimaryKey_helper_def)
  show ?thesis
    unfolding eq by (simp add: isUsedForPrimaryKey_iff)
qed

text \<open>
  For the example \<^verbatim>\<open>User\<close>: \<^verbatim>\<open>id\<close> is unique but part of the key,
  \<^verbatim>\<open>age\<close> is not unique, and only \<^verbatim>\<open>email\<close> is returned.
\<close>

theorem getUniqueAttributesForEntity_spec_witness:
  "getEntityByTarget example_connected \<lparr> target_name = ''User'' \<rparr>
       = (Inr example_user :: string conn_error + entityMetadata)
   \<and> getUniqueAttributesForEntity example_connected \<lparr> target_name = ''User'' \<rparr>
       = (Inr [\<lparr> attr_name = ''email'', unique = Some (example_lock_key ''email''),
                 autoUpdate = False \<rparr>] :: string conn_error + attributeMetadata list)"
proof -
  have g: "getEntityByTarget example_connected \<lparr> target_name = ''User'' \<rparr>
       = (Inr example_user :: string conn_error + entityMetadata)"
    by (simp add: getEntityByTarget_def example_connected_def map_get_def)
  from getUniqueAttributesForEntity_spec[OF g]
  have "getUniqueAttributesForEntity example_connected \<lparr> target_name = ''User'' \<rparr>
      = (Inr (filter (\<lambda>attr. unique attr \<noteq> None \<and>
              \<not> isUsedForPrimaryKey (primaryKey (schema example_user)) (attr_name attr))
            (attributes example_user)) :: string conn_error + attributeMetadata list)"
    unfolding isUsedForPrimaryKey_iff[symmetric] by blast
  also have "filter (\<lambda>attr. unique attr \<noteq> None \<and>
              \<not> isUsedForPrimaryKey (primaryKey (schema example_user)) (attr_name attr))
            (attributes example_user)
      = [\<lparr> attr_name = ''email'', unique = Some (example_lock_key ''email''),
                 autoUpdate = False \<rparr>]"
    by (simp add: example_user_def example_primaryKey_def example_attributes_def
          isUsedForPrimaryKey_def)
  finally show ?thesis using g by blast
qed

text \<open>
  Claim C4. After a \<^verbatim>\<open>connect()\<close> that succeeded, a second \<^verbatim>\<open>connect()\<close> throws
  the error of an already active connection and leaves the connection, its metadata map
  and the world as they were. The second call is made with any builder and any callback:
  neither is consulted, so nothing is rebuilt.
\<close>

theorem connect_twice_fails:
  "connect builder destroySelf (c, w) = (Inr (), c1, w1) \<Longrightarrow>
   connect builder' destroySelf' (c1, w1) = (Inl AlreadyActiveConnection, c1, w1)
   \<and> entityMetadatas (fst (snd (connect builder' destroySelf' (c1, w1)))) = entityMetadatas c1"
  by (frule connect_Inr_isConnected) (simp add: connect_def)

text \<open>
  The second call is given a builder that would throw; the error is still the one of
  the duplicate connection, and the map of the first call stays.
\<close>

theorem connect_twice_fails_witness:
  "connect example_builder example_destroySelf (example_connection, [''default''])
     = (Inr (), example_connected, [''default''])
   \<and> connect example_failing_builder example_destroySelf (example_connected, [''default''])
     = (Inl AlreadyActiveConnection, example_connected, [''default''])
   \<and> entityMetadatas (fst (snd (connect example_failing_builder example_destroySelf
        (example_connected, [''default''])))) = Some [(''User'', example_user)]"
proof -
  have e: "entityMetadatas example_connected = Some [(''User'', example_user)]"
    by (simp add: example_connected_def)
  from connect_twice_fails[OF example_connect, of example_failing_builder example_destroySelf]
    example_connect e
  show ?thesis by simp
qed

text \<open>
  Claim C5. If \<^verbatim>\<open>buildMetadatas()\<close> throws \<open>err\<close> inside \<^verbatim>\<open>connect()\<close> (so the
  connection was not connected), then \<^verbatim>\<open>connect()\<close> calls \<^verbatim>\<open>destroySelf\<close> with the
  connection's name, throws the same \<open>err\<close>, and leaves the connection unchanged:
  \<^verbatim>\<open>isConnected\<close> is still false.
\<close>

theorem connect_build_failure:
  "\<not> isConnected c \<Longrightarrow> buildMetadatas builder c = Inl err \<Longrightarrow>
   connect builder destroySelf (c, w) = (Inl err, c, destroySelf (conn_name c) w)
   \<and> \<not> isConnected (fst (snd (connect builder destroySelf (c, w))))"
  by (simp add: connect_def)

text \<open>
  The connection \<^verbatim>\<open>default\<close> is removed from the manager's registry, the other
  one stays.
\<close>

theorem connect_build_failure_witness:
  "\<not> isConnected example_connection
   \<and> buildMetadatas example_failing_builder example_connection = Inl (Thrown ''invalid key template'')
   \<and> connect example_failing_builder example_destroySelf (example_connection, [''default'', ''other''])
       = (Inl (Thrown ''invalid key template''), example_connection, [''other''])
   \<and> \<not> isConnected (fst (snd (connect example_failing_builder example_destroySelf
        (example_connection, [''default'', ''other'']))))"
proof -
  have a: "\<not> isConnected example_connection"
    by (simp add: example_connection_def new_Connection_def)
  have b: "buildMetadatas example_failing_builder example_connection
             = Inl (Thrown ''invalid key template'')"
    by (simp add: buildMetadatas_def example_failing_builder_def)
  have n: "conn_name example_connection = ''default''"
    by (simp add: example_connection_def new_Connection_def)
  from connect_build_failure[OF a b, of example_destroySelf "[''default'', ''other'']"] a b n
  show ?thesis by (simp add: example_destroySelf_def)
qed

text \<open>
  Claim C6. \<^verbatim>\<open>isUsedForPrimaryKey(primaryKey, attributeName)\<close> is true exactly
  when some interpolation pattern of the key schema holds \<open>attributeName\<close> among the
  attribute names it refers to; it is false for every attribute when the schema has no
  interpolations (the property is absent, or the object is empty).
\<close>

theorem isUsedForPrimaryKey_placeholder_iff:
  "(isUsedForPrimaryKey pk attributeName \<longleftrightarrow>
      (\<exists>m key pat. interpolations (metadata pk) = Some m \<and> map_of m key = Some pat
                    \<and> attributeName \<in> set pat))
   \<and> (interpolations (metadata pk) = None \<or> interpolations (metadata pk) = Some []
        \<longrightarrow> \<not> isUsedForPrimaryKey pk attributeName)"
  unfolding isUsedForPrimaryKey_iff by auto

theorem isUsedForPrimaryKey_placeholder_iff_witness:
  "isUsedForPrimaryKey example_primaryKey ''kind''
   \<and> \<not> isUsedForPrimaryKey example_primaryKey ''email''
   \<and> interpolations (metadata example_bare_primaryKey) = None
   \<and> \<not> isUsedForPrimaryKey example_bare_primaryKey ''id''"
proof -
  have a: "interpolations (metadata example_primaryKey)
             = Some [(''PK'', [''id'']), (''SK'', [''id'', ''kind''])]"
    by (simp add: example_primaryKey_def)
  have b: "interpolations (metadata example_bare_primaryKey) = None"
    by (simp add: example_bare_primaryKey_def)
  have c: "map_of [(''PK'', [''id'']), (''SK'', [''id'', ''kind''])] ''SK'' = Some [''id'', ''kind'']"
    by simp
  have d: "\<not> (\<exists>key pat. map_of [(''PK'', [''id'']), (''SK'', [''id'', ''kind''])] key = Some pat
                \<and> ''email'' \<in> set pat)"
    by (auto split: if_splits)
  from isUsedForPrimaryKey_placeholder_iff[of example_primaryKey "''kind''"] a c
  have 1: "isUsedForPrimaryKey example_primaryKey ''kind''" by auto
  from isUsedForPrimaryKey_placeholder_iff[of example_primaryKey "''email''"] a d
  have 2: "\<not> isUsedForPrimaryKey example_primaryKey ''email''" by auto
  from isUsedForPrimaryKey_placeholder_iff[of example_bare_primaryKey "''id''"] b
  have 3: "\<not> isUsedForPrimaryKey example_bare_primaryKey ''id''" by blast
  from 1 2 3 b show ?thesis by blast
qed

text \<open>
  Claim C7. On a connection whose \<^verbatim>\<open>connect()\<close> succeeded with the metadata list
  \<open>metas\<close>: for an entity type whose name no element of \<open>metas\<close> carries,
  \<^verbatim>\<open>getEntityByTarget\<close> throws the error "No such entity"; for a type whose name is
  among them it returns an element of \<open>metas\<close> with that name; whatever it returns is
  such an element (never another object); and when the names are distinct, each
  entity's lookup returns that entity's own metadata.
\<close>

theorem getEntityByTarget_after_connect:
  fixes c :: "'ent connection" and builder :: "'ent connection \<Rightarrow> 'ent list \<Rightarrow> 'x conn_error + entityMetadata list"
  assumes "\<not> isConnected c" and "buildMetadatas builder c = Inr metas"
    and "connect builder destroySelf (c, w) = (r, c1, w1)"
  shows "r = Inr ()
    \<and> (target_name t \<notin> set (map (\<lambda>md. target_name (target md)) metas)
         \<longrightarrow> getEntityByTarget c1 t = (Inl (NoSuchEntity (target_name t)) :: 'x conn_error + entityMetadata))
    \<and> (target_name t \<in> set (map (\<lambda>md. target_name (target md)) metas)
         \<longrightarrow> (\<exists>md \<in> set metas. target_name (target md) = target_name t
                \<and> getEntityByTarget c1 t = (Inr md :: 'x conn_error + entityMetadata)))
    \<and> (\<forall>md. getEntityByTarget c1 t = (Inr md :: 'x conn_error + entityMetadata)
         \<longrightarrow> md \<in> set metas \<and> target_name (target md) = target_name t)
    \<and> (distinct (map (\<lambda>md. target_name (target md)) metas)
         \<longrightarrow> (\<forall>md \<in> set metas. getEntityByTarget c1 (target md) = (Inr md :: 'x conn_error + entityMetadata)))"
proof -
  let ?reg = "new_Map (map (\<lambda>entityMeta. (target_name (target entityMeta), entityMeta)) metas)"
  from assms have r: "r = Inr ()" and c1: "entityMetadatas c1 = Some ?reg"
    by (auto simp: connect_success)
  have absent: "target_name t \<notin> set (map (\<lambda>md. target_name (target md)) metas)
      \<Longrightarrow> getEntityByTarget c1 t = (Inl (NoSuchEntity (target_name t)) :: 'x conn_error + entityMetadata)"
    using registry_lookup_None[of metas "target_name t"]
    by (simp add: getEntityByTarget_def c1)
  have present: "\<exists>md \<in> set metas. target_name (target md) = target_name t
                \<and> getEntityByTarget c1 t = (Inr md :: 'x conn_error + entityMetadata)"
    if "target_name t \<in> set (map (\<lambda>md. target_name (target md)) metas)"
  proof (cases "map_get ?reg (target_name t)")
    case None
    with that show ?thesis using registry_lookup_None[of metas "target_name t"] by simp
  next
    case (Some md)
    from registry_lookup_Some[OF Some] Some show ?thesis
      by (auto simp: getEntityByTarget_def c1)
  qed
  have dist: "\<forall>md \<in> set metas. getEntityByTarget c1 (target md) = (Inr md :: 'x conn_error + entityMetadata)"
    if "distinct (map (\<lambda>md. target_name (target md)) metas)"
    using registry_lookup_distinct[OF that]
    by (simp add: getEntityByTarget_def c1)
  have only: "md \<in> set metas \<and> target_name (target md) = target_name t"
    if "getEntityByTarget c1 t = (Inr md :: 'x conn_error + entityMetadata)" for md
  proof -
    from that have "map_get ?reg (target_name t) = Some md"
      by (simp add: getEntityByTarget_def c1 split: option.splits)
    then show ?thesis by (rule registry_lookup_Some)
  qed
  from r absent present only dist show ?thesis by blast
qed

theorem getEntityByTarget_after_connect_witness:
  "\<not> isConnected example_connection
   \<and> buildMetadatas example_builder example_connection = Inr [example_user]
   \<and> connect example_builder example_destroySelf (example_connection, [''default''])
       = (Inr (), example_connected, [''default''])
   \<and> getEntityByTarget example_connected \<lparr> target_name = ''Order'' \<rparr>
       = (Inl (NoSuchEntity ''Order'') :: string conn_error + entityMetadata)
   \<and> getEntityByTarget example_connected \<lparr> target_name = ''User'' \<rparr>
       = (Inr example_user :: string conn_error + entityMetadata)"
proof -
  have a: "\<not> isConnected example_connection"
    by (simp add: example_connection_def new_Connection_def)
  have b: "buildMetadatas example_builder example_connection = Inr [example_user]"
    by (simp add: buildMetadatas_def example_builder_def example_connection_def new_Connection_def)
  have t: "target example_user = \<lparr> target_name = ''User'' \<rparr>"
    by (simp add: example_user_def)
  from getEntityByTarget_after_connect[OF a b example_connect, of "\<lparr> target_name = ''Order'' \<rparr>"] t
  have 1: "getEntityByTarget example_connected \<lparr> target_name = ''Order'' \<rparr>
       = (Inl (NoSuchEntity ''Order'') :: string conn_error + entityMetadata)"
    by simp
  from getEntityByTarget_after_connect[OF a b example_connect, of "\<lparr> target_name = ''User'' \<rparr>"] t
  have 2: "getEntityByTarget example_connected \<lparr> target_name = ''User'' \<rparr>
       = (Inr example_user :: string conn_error + entityMetadata)"
    by simp
  from a b example_connect 1 2 show ?thesis by blast
qed

text \<open>
  Claim C9. \<^verbatim>\<open>hasMetadata\<close> never returns false, on any connection \<open>c0\<close>. On a
  connection whose \<^verbatim>\<open>connect()\<close> succeeded it returns true for a declared entity type
  and throws the error "No such entity" of the lookup for an undeclared one.
\<close>

theorem hasMetadata_never_false:
  fixes c :: "'ent connection" and c0 :: "'ent connection"
    and builder :: "'ent connection \<Rightarrow> 'ent list \<Rightarrow> 'x conn_error + entityMetadata list"
  assumes "\<not> isConnected c" and "buildMetadatas builder c = Inr metas"
    and "connect builder destroySelf (c, w) = (r, c1, w1)"
  shows "(hasMetadata c0 t0 :: 'x conn_error + bool) \<noteq> Inr False
    \<and> (target_name t \<in> set (map (\<lambda>md. target_name (target md)) metas)
         \<longrightarrow> hasMetadata c1 t = (Inr True :: 'x conn_error + bool))
    \<and> (target_name t \<notin> set (map (\<lambda>md. target_name (target md)) metas)
         \<longrightarrow> hasMetadata c1 t = (Inl (NoSuchEntity (target_name t)) :: 'x conn_error + bool))"
proof -
  let ?reg = "new_Map (map (\<lambda>entityMeta. (target_name (target entityMeta), entityMeta)) metas)"
  from assms have c1: "entityMetadatas c1 = Some ?reg"
    by (auto simp: connect_success)
  have a: "(hasMetadata c0 t0 :: 'x conn_error + bool) \<noteq> Inr False"
    by (simp add: hasMetadata_def truthy_object_def split: sum.splits)
  have b: "hasMetadata c1 t = (Inr True :: 'x conn_error + bool)"
    if "target_name t \<in> set (map (\<lambda>md. target_name (target md)) metas)"
  proof (cases "map_get ?reg (target_name t)")
    case None
    with that show ?thesis using registry_lookup_None[of metas "target_name t"] by simp
  next
    case (Some md)
    then show ?thesis
      by (simp add: hasMetadata_def getEntityByTarget_def c1 truthy_object_def)
  qed
  have d: "hasMetadata c1 t = (Inl (NoSuchEntity (target_name t)) :: 'x conn_error + bool)"
    if "target_name t \<notin> set (map (\<lambda>md. target_name (target md)) metas)"
    using that registry_lookup_None[of metas "target_name t"]
    by (simp add: hasMetadata_def getEntityByTarget_def c1)
  from a b d show ?thesis by blast
qed

theorem hasMetadata_never_false_witness:
  "\<not> isConnected example_connection
   \<and> buildMetadatas example_builder example_connection = Inr [example_user]
   \<and> connect example_builder example_destroySelf (example_connection, [''default''])
       = (Inr (), example_connected, [''default''])
   \<and> hasMetadata example_connected \<lparr> target_name = ''User'' \<rparr>
       = (Inr True :: string conn_error + bool)
   \<and> hasMetadata example_connected \<lparr> target_name = ''Order'' \<rparr>
       = (Inl (NoSuchEntity ''Order'') :: string conn_error + bool)
   \<and> hasMetadata example_connection \<lparr> target_name = ''User'' \<rparr>
       \<noteq> (Inr False :: string conn_error + bool)"
proof -
  have a: "\<not> isConnected example_connection"
    by (simp add: example_connection_def new_Connection_def)
  have b: "buildMetadatas example_builder example_connection = Inr [example_user]"
    by (simp add: buildMetadatas_def example_builder_def example_connection_def new_Connection_def)
  have t: "target example_user = \<lparr> target_name = ''User'' \<rparr>"
    by (simp add: example_user_def)
  from hasMetadata_never_false[OF a b example_connect,
      of example_connection "\<lparr> target_name = ''User'' \<rparr>" "\<lparr> target_name = ''User'' \<rparr>"] t
  have 1: "hasMetadata example_connected \<lparr> target_name = ''User'' \<rparr>
       = (Inr True :: string conn_error + bool)"
    and 3: "hasMetadata example_connection \<lparr> target_name = ''User'' \<rparr>
       \<noteq> (Inr False :: string conn_error + bool)"
    by simp_all
  from hasMetadata_never_false[OF a b example_connect,
      of example_connection "\<lparr> target_name = ''User'' \<rparr>" "\<lparr> target_name = ''Order'' \<rparr>"] t
  have 2: "hasMetadata example_connected \<lparr> target_name = ''Order'' \<rparr>
       = (Inl (NoSuchEntity ''Order'') :: string conn_error + bool)"
    by simp
  from a b example_connect 1 2 3 show ?thesis by blast
qed

section \<open>Properties of the transaction transformer\<close>

subsection \<open>The loop\<close>

lemma reduce_append:
  "reduce f acc (xs @ ys) =
     (case reduce f acc xs of Inl err \<Rightarrow> Inl err | Inr acc' \<Rightarrow> reduce f acc' ys)"
  by (induction xs arbitrary: acc) (auto split: sum.splits)

lemma reduce_fails_at:
  "reduce f acc pre = Inr acc' \<Longrightarrow> f acc' x = Inl err \<Longrightarrow>
   reduce f acc (pre @ x # post) = Inl err"
  by (simp add: reduce_append)

lemma reduce_fails_if:
  "x \<in> set xs \<Longrightarrow> (\<And>a. isl (f a x)) \<Longrightarrow> isl (reduce f acc xs)"
proof (induction xs arbitrary: acc)
  case Nil
  then show ?case by simp
next
  case (Cons y ys)
  show ?case
  proof (cases "f acc y")
    case (Inl e)
    then show ?thesis by simp
  next
    case (Inr a)
    with Cons.prems(1) Cons.prems(2)[of acc] have "x \<in> set ys" by auto
    from Cons.IH[OF this Cons.prems(2)] Inr show ?thesis by simp
  qed
qed

lemma write_step_shape_error:
  "\<not> (isTransactionAddCreateItem it \<or> isTransactionAddUpdateItem it \<or> isTransactionAddDeleteItem it)
   \<Longrightarrow> write_step T acc it = Inl (InvalidTransactionWriteItemError it)"
  by (cases it) simp_all

lemma read_step_shape_error:
  "\<not> isTransactionAddGetItem it \<Longrightarrow> read_step T acc it = Inl (InvalidTransactionReadItemError it)"
  by (cases it) simp_all

text \<open>
  One step of the write loop succeeds exactly when the item has a classification, and
  then appends the two parts of it; the whole loop is the concatenation of the steps.
\<close>

lemma write_step_classify:
  "write_step T acc ti = Inr acc' \<longleftrightarrow>
     (\<exists>c. classify T ti = Some c
        \<and> acc' = acc\<lparr> transactionItemList := transactionItemList acc @ operations_part c,
                     lazyTransactionWriteItemListLoader :=
                       lazyTransactionWriteItemListLoader acc @ deferred_part c \<rparr>)"
  by (cases ti) (auto split: sum.splits putResult.splits lazyResult.splits)

lemma reduce_write_step:
  "reduce (write_step T) acc items = Inr acc' \<longleftrightarrow>
     (\<exists>cs. map (classify T) items = map Some cs
        \<and> acc' = acc\<lparr> transactionItemList := transactionItemList acc @ concat (map operations_part cs),
                     lazyTransactionWriteItemListLoader :=
                       lazyTransactionWriteItemListLoader acc @ concat (map deferred_part cs) \<rparr>)"
proof (induction items arbitrary: acc)
  case Nil
  show ?case by auto
next
  case (Cons ti items)
  show ?case
  proof
    assume "reduce (write_step T) acc (ti # items) = Inr acc'"
    then obtain a where a: "write_step T acc ti = Inr a" "reduce (write_step T) a items = Inr acc'"
      by (auto split: sum.splits)
    from a(1) obtain c where c: "classify T ti = Some c"
      "a = acc\<lparr> transactionItemList := transactionItemList acc @ operations_part c,
                lazyTransactionWriteItemListLoader :=
                  lazyTransactionWriteItemListLoader acc @ deferred_part c \<rparr>"
      unfolding write_step_classify by blast
    from a(2) obtain cs where cs: "map (classify T) items = map Some cs"
      "acc' = a\<lparr> transactionItemList := transactionItemList a @ concat (map operations_part cs),
                 lazyTransactionWriteItemListLoader :=
                   lazyTransactionWriteItemListLoader a @ concat (map deferred_part cs) \<rparr>"
      unfolding Cons.IH by blast
    have "map (classify T) (ti # items) = map Some (c # cs)" using c(1) cs(1) by simp
    moreover have "acc' = acc\<lparr> transactionItemList :=
                       transactionItemList acc @ concat (map operations_part (c # cs)),
                     lazyTransactionWriteItemListLoader :=
                       lazyTransactionWriteItemListLoader acc @ concat (map deferred_part (c # cs)) \<rparr>"
      using c(2) cs(2) by simp
    ultimately show "\<exists>cs. map (classify T) (ti # items) = map Some cs
        \<and> acc' = acc\<lparr> transactionItemList := transactionItemList acc @ concat (map operations_part cs),
                     lazyTransactionWriteItemListLoader :=
                       lazyTransactionWriteItemListLoader acc @ concat (map deferred_part cs) \<rparr>"
      by blast
  next
    assume "\<exists>cs. map (classify T) (ti # items) = map Some cs
        \<and> acc' = acc\<lparr> transactionItemList := transactionItemList acc @ concat (map operations_part cs),
                     lazyTransactionWriteItemListLoader :=
                       lazyTransactionWriteItemListLoader acc @ concat (map deferred_part cs) \<rparr>"
    then obtain cs0 where cs0: "map (classify T) (ti # items) = map Some cs0"
      "acc' = acc\<lparr> transactionItemList := transactionItemList acc @ concat (map operations_part cs0),
                     lazyTransactionWriteItemListLoader :=
                       lazyTransactionWriteItemListLoader acc @ concat (map deferred_part cs0) \<rparr>"
      by blast
    from cs0(1) obtain c cs where ccs: "cs0 = c # cs" "classify T ti = Some c"
      "map (classify T) items = map Some cs"
      by (cases cs0) auto
    let ?a = "acc\<lparr> transactionItemList := transactionItemList acc @ operations_part c,
                lazyTransactionWriteItemListLoader :=
                  lazyTransactionWriteItemListLoader acc @ deferred_part c \<rparr>"
    have step: "write_step T acc ti = Inr ?a"
      unfolding write_step_classify using ccs(2) by blast
    have "reduce (write_step T) ?a items = Inr acc'"
      unfolding Cons.IH using ccs(3) cs0(2) ccs(1) by (intro exI[of _ cs]) simp
    with step show "reduce (write_step T) acc (ti # items) = Inr acc'" by simp
  qed
qed

lemma innerTransformTransactionWriteItems_iff:
  "innerTransformTransactionWriteItems T items = Inr acc \<longleftrightarrow>
     (\<exists>cs. map (classify T) items = map Some cs
        \<and> acc = \<lparr> transactionItemList = concat (map operations_part cs),
                  lazyTransactionWriteItemListLoader = concat (map deferred_part cs) \<rparr>)"
  unfolding innerTransformTransactionWriteItems_def reduce_write_step by simp

lemma map_of_dropProp:
  "map_of (dropProp item p) k = (if k = p then None else map_of item k)"
  unfolding dropProp_def by (induction item) auto

lemma example_write:
  "innerTransformTransactionWriteItems example_transformers
     [AddCreate ''User'' (), AddUpdate ''User'' ''k1'' ''email'' (), AddDelete ''Order'' ''k2'' (),
      AddUpdate ''Order'' ''k3'' ''total'' ()]
   = Inr \<lparr> transactionItemList =
             [Put [(''Item'', ''User'')], Put [(''Item'', ''lock'')],
              Delete [(''Key'', ''k2'')],
              Update [(''Key'', ''k3''), (''UpdateExpression'', ''total'')]],
           lazyTransactionWriteItemListLoader = [''k1''] \<rparr>"
  by (simp add: innerTransformTransactionWriteItems_def example_transformers_def dropProp_def)

subsection \<open>Claims on the transformer\<close>

text \<open>
  Claim C1. In a write transaction, when the items before \<open>it\<close> have been transformed
  and \<open>it\<close> is not a create, update or delete item (a get item in particular), the
  transformation throws \<^verbatim>\<open>InvalidTransactionWriteItemError\<close> for \<open>it\<close>, whatever
  follows; and a list that holds such an item never yields a result. In a read
  transaction the same holds with \<^verbatim>\<open>InvalidTransactionReadItemError\<close> for an item that
  is not a get item. Both functions are pure functions of the items and of the
  transformers: they return the error as their own value, take no store or executor, and
  never call a lazy loader, so the failure comes before any request is made.
\<close>

theorem transaction_item_shape_errors:
  "(innerTransformTransactionWriteItems T pre = Inr acc
      \<and> \<not> (isTransactionAddCreateItem it \<or> isTransactionAddUpdateItem it \<or> isTransactionAddDeleteItem it)
      \<longrightarrow> innerTransformTransactionWriteItems T (pre @ it # post)
            = Inl (InvalidTransactionWriteItemError it))
   \<and> (innerTransformTransactionWriteItems T pre = Inr acc
      \<longrightarrow> innerTransformTransactionWriteItems T (pre @ AddGet e k opts # post)
            = Inl (InvalidTransactionWriteItemError (AddGet e k opts)))
   \<and> ((\<exists>x \<in> set items.
          \<not> (isTransactionAddCreateItem x \<or> isTransactionAddUpdateItem x \<or> isTransactionAddDeleteItem x))
      \<longrightarrow> isl (innerTransformTransactionWriteItems T items))
   \<and> (innerTransformTransactionReadItems T pre' = Inr racc \<and> \<not> isTransactionAddGetItem it'
      \<longrightarrow> innerTransformTransactionReadItems T (pre' @ it' # post')
            = Inl (InvalidTransactionReadItemError it'))
   \<and> ((\<exists>x \<in> set items'. \<not> isTransactionAddGetItem x)
      \<longrightarrow> isl (innerTransformTransactionReadItems T items'))"
proof (intro conjI impI)
  assume "innerTransformTransactionWriteItems T pre = Inr acc
      \<and> \<not> (isTransactionAddCreateItem it \<or> isTransactionAddUpdateItem it \<or> isTransactionAddDeleteItem it)"
  then show "innerTransformTransactionWriteItems T (pre @ it # post)
            = Inl (InvalidTransactionWriteItemError it)"
    unfolding innerTransformTransactionWriteItems_def
    by (auto intro: reduce_fails_at write_step_shape_error)
next
  assume "innerTransformTransactionWriteItems T pre = Inr acc"
  then show "innerTransformTransactionWriteItems T (pre @ AddGet e k opts # post)
            = Inl (InvalidTransactionWriteItemError (AddGet e k opts))"
    unfolding innerTransformTransactionWriteItems_def
    by (auto intro: reduce_fails_at)
next
  assume "\<exists>x \<in> set items.
          \<not> (isTransactionAddCreateItem x \<or> isTransactionAddUpdateItem x \<or> isTransactionAddDeleteItem x)"
  then obtain x where "x \<in> set items"
    "\<not> (isTransactionAddCreateItem x \<or> isTransactionAddUpdateItem x \<or> isTransactionAddDeleteItem x)"
    by blast
  then show "isl (innerTransformTransactionWriteItems T items)"
    unfolding innerTransformTransactionWriteItems_def
    by (intro reduce_fails_if[of x]) (simp_all add: write_step_shape_error)
next
  assume "innerTransformTransactionReadItems T pre' = Inr racc \<and> \<not> isTransactionAddGetItem it'"
  then show "innerTransformTransactionReadItems T (pre' @ it' # post')
            = Inl (InvalidTransactionReadItemError it')"
    unfolding innerTransformTransactionReadItems_def
    by (auto intro: reduce_fails_at read_step_shape_error)
next
  assume "\<exists>x \<in> set items'. \<not> isTransactionAddGetItem x"
  then obtain x where "x \<in> set items'" "\<not> isTransactionAddGetItem x" by blast
  then show "isl (innerTransformTransactionReadItems T items')"
    unfolding innerTransformTransactionReadItems_def
    by (intro reduce_fails_if[of x]) (simp_all add: read_step_shape_error)
qed

theorem transaction_item_shape_errors_witness:
  "innerTransformTransactionWriteItems example_transformers [AddCreate ''Order'' ()]
     = Inr \<lparr> transactionItemList = [Put [(''Item'', ''Order'')]],
             lazyTransactionWriteItemListLoader = [] \<rparr>
   \<and> innerTransformTransactionWriteItems example_transformers
       ([AddCreate ''Order'' ()] @ AddGet ''Order'' ''k1'' () # [AddDelete ''Order'' ''k2'' ()])
     = Inl (InvalidTransactionWriteItemError (AddGet ''Order'' ''k1'' ()))
   \<and> innerTransformTransactionWriteItems example_transformers
       ([AddCreate ''Order'' ()] @ OtherShape # [])
     = Inl (InvalidTransactionWriteItemError OtherShape)
   \<and> isl (innerTransformTransactionWriteItems example_transformers
       [AddCreate ''Unknown'' (), AddGet ''Order'' ''k1'' ()])
   \<and> innerTransformTransactionReadItems example_transformers [AddGet ''Order'' ''k1'' ()]
     = Inr \<lparr> getTransactionItemList = [Get [(''Key'', ''k1'')]] \<rparr>
   \<and> innerTransformTransactionReadItems example_transformers
       ([AddGet ''Order'' ''k1'' ()] @ AddUpdate ''Order'' ''k2'' ''name'' () # [])
     = Inl (InvalidTransactionReadItemError (AddUpdate ''Order'' ''k2'' ''name'' ()))
   \<and> isl (innerTransformTransactionReadItems example_transformers
       [AddGet ''Order'' ''k1'' (), AddCreate ''Order'' ()])"
proof -
  have w: "innerTransformTransactionWriteItems example_transformers [AddCreate ''Order'' ()]
     = Inr \<lparr> transactionItemList = [Put [(''Item'', ''Order'')]],
             lazyTransactionWriteItemListLoader = [] \<rparr>"
    by (simp add: innerTransformTransactionWriteItems_def example_transformers_def)
  have r: "innerTransformTransactionReadItems example_transformers [AddGet ''Order'' ''k1'' ()]
     = Inr \<lparr> getTransactionItemList = [Get [(''Key'', ''k1'')]] \<rparr>"
    by (simp add: innerTransformTransactionReadItems_def example_transformers_def)
  have s: "\<not> (isTransactionAddCreateItem (OtherShape :: (string, string, string, unit) transactionItem)
              \<or> isTransactionAddUpdateItem (OtherShape :: (string, string, string, unit) transactionItem)
              \<or> isTransactionAddDeleteItem (OtherShape :: (string, string, string, unit) transactionItem))"
    by simp
  have g: "\<not> isTransactionAddGetItem (AddUpdate ''Order'' ''k2'' ''name'' ())" by simp
  have ew: "\<exists>x \<in> set [AddCreate ''Unknown'' (), AddGet ''Order'' ''k1'' ()].
          \<not> (isTransactionAddCreateItem x \<or> isTransactionAddUpdateItem x \<or> isTransactionAddDeleteItem x)"
    by simp
  have er: "\<exists>x \<in> set [AddGet ''Order'' ''k1'' (), AddCreate ''Order'' ()].
          \<not> isTransactionAddGetItem x"
    by simp
  note A = transaction_item_shape_errors[where T = example_transformers
      and pre = "[AddCreate ''Order'' ()]" and it = OtherShape and post = "[]"
      and e = "''Order''" and k = "''k1''" and opts = "()"
      and items = "[AddCreate ''Unknown'' (), AddGet ''Order'' ''k1'' ()]"
      and pre' = "[AddGet ''Order'' ''k1'' ()]" and it' = "AddUpdate ''Order'' ''k2'' ''name'' ()"
      and post' = "[]" and items' = "[AddGet ''Order'' ''k1'' (), AddCreate ''Order'' ()]"]
  note B = transaction_item_shape_errors[where T = example_transformers
      and pre = "[AddCreate ''Order'' ()]" and post = "[AddDelete ''Order'' ''k2'' ()]"
      and e = "''Order''" and k = "''k1''" and opts = "()"]
  have 1: "innerTransformTransactionWriteItems example_transformers
       ([AddCreate ''Order'' ()] @ OtherShape # [])
     = Inl (InvalidTransactionWriteItemError OtherShape)"
    by (rule mp[OF A[THEN conjunct1] conjI[OF w s]])
  have 2: "innerTransformTransactionWriteItems example_transformers
       ([AddCreate ''Order'' ()] @ AddGet ''Order'' ''k1'' () # [AddDelete ''Order'' ''k2'' ()])
     = Inl (InvalidTransactionWriteItemError (AddGet ''Order'' ''k1'' ()))"
    by (rule mp[OF B[THEN conjunct2, THEN conjunct1] w])
  have 3: "isl (innerTransformTransactionWriteItems example_transformers
       [AddCreate ''Unknown'' (), AddGet ''Order'' ''k1'' ()])"
    by (rule mp[OF A[THEN conjunct2, THEN conjunct2, THEN conjunct1] ew])
  have 4: "innerTransformTransactionReadItems example_transformers
       ([AddGet ''Order'' ''k1'' ()] @ AddUpdate ''Order'' ''k2'' ''name'' () # [])
     = Inl (InvalidTransactionReadItemError (AddUpdate ''Order'' ''k2'' ''name'' ()))"
    by (rule mp[OF A[THEN conjunct2, THEN conjunct2, THEN conjunct2, THEN conjunct1] conjI[OF r g]])
  have 5: "isl (innerTransformTransactionReadItems example_transformers
       [AddGet ''Order'' ''k1'' (), AddCreate ''Order'' ()])"
    by (rule mp[OF A[THEN conjunct2, THEN conjunct2, THEN conjunct2, THEN conjunct2] er])
  from w r 1 2 3 4 5 show ?thesis by (intro conjI)
qed

text \<open>
  Claim C2. When the transformation of a list of write items returns, every item has
  one classification, a list of operations or a deferred expansion; the operation list
  is the concatenation, in item order, of the operations of the items of the first kind,
  and the queue of lazy loaders is the list, in item order, of the expansions of the
  second kind. An item of one kind adds nothing to the other collection. The same holds
  for one step of the loop on any running accumulator: it appends the item's operations
  to the operation list and leaves the queue, or appends the loader to the queue and
  leaves the operation list.
\<close>

theorem write_items_classified:
  "(innerTransformTransactionWriteItems T items = Inr acc \<longrightarrow>
     (\<exists>cs. map (classify T) items = map Some cs
        \<and> transactionItemList acc = concat (map operations_part cs)
        \<and> lazyTransactionWriteItemListLoader acc = concat (map deferred_part cs)
        \<and> (\<forall>c \<in> set cs.
              (\<exists>ops. c = Operations ops \<and> operations_part c = ops \<and> deferred_part c = [])
            \<or> (\<exists>l. c = Deferred l \<and> operations_part c = [] \<and> deferred_part c = [l]))))
   \<and> (write_step T running ti = Inr running' \<longrightarrow>
        (\<exists>ops. classify T ti = Some (Operations ops)
           \<and> running' = running\<lparr> transactionItemList := transactionItemList running @ ops \<rparr>)
      \<or> (\<exists>l. classify T ti = Some (Deferred l)
           \<and> running' = running\<lparr> lazyTransactionWriteItemListLoader :=
                                     lazyTransactionWriteItemListLoader running @ [l] \<rparr>))"
proof (intro conjI impI)
  assume "innerTransformTransactionWriteItems T items = Inr acc"
  then obtain cs where cs: "map (classify T) items = map Some cs"
    "acc = \<lparr> transactionItemList = concat (map operations_part cs),
             lazyTransactionWriteItemListLoader = concat (map deferred_part cs) \<rparr>"
    unfolding innerTransformTransactionWriteItems_iff by blast
  have "\<forall>c \<in> set cs.
              (\<exists>ops. c = Operations ops \<and> operations_part c = ops \<and> deferred_part c = [])
            \<or> (\<exists>l. c = Deferred l \<and> operations_part c = [] \<and> deferred_part c = [l])"
  proof
    fix c assume "c \<in> set cs"
    show "(\<exists>ops. c = Operations ops \<and> operations_part c = ops \<and> deferred_part c = [])
            \<or> (\<exists>l. c = Deferred l \<and> operations_part c = [] \<and> deferred_part c = [l])"
      by (cases c) simp_all
  qed
  with cs show "\<exists>cs. map (classify T) items = map Some cs
        \<and> transactionItemList acc = concat (map operations_part cs)
        \<and> lazyTransactionWriteItemListLoader acc = concat (map deferred_part cs)
        \<and> (\<forall>c \<in> set cs.
              (\<exists>ops. c = Operations ops \<and> operations_part c = ops \<and> deferred_part c = [])
            \<or> (\<exists>l. c = Deferred l \<and> operations_part c = [] \<and> deferred_part c = [l]))"
    by (intro exI[of _ cs]) simp
next
  assume "write_step T running ti = Inr running'"
  then obtain c where c: "classify T ti = Some c"
    "running' = running\<lparr> transactionItemList := transactionItemList running @ operations_part c,
                     lazyTransactionWriteItemListLoader :=
                       lazyTransactionWriteItemListLoader running @ deferred_part c \<rparr>"
    unfolding write_step_classify by blast
  then show "(\<exists>ops. classify T ti = Some (Operations ops)
           \<and> running' = running\<lparr> transactionItemList := transactionItemList running @ ops \<rparr>)
      \<or> (\<exists>l. classify T ti = Some (Deferred l)
           \<and> running' = running\<lparr> lazyTransactionWriteItemListLoader :=
                                     lazyTransactionWriteItemListLoader running @ [l] \<rparr>)"
    by (cases c) simp_all
qed

theorem write_items_classified_witness:
  "innerTransformTransactionWriteItems example_transformers
     [AddCreate ''User'' (), AddUpdate ''User'' ''k1'' ''email'' (), AddDelete ''Order'' ''k2'' (),
      AddUpdate ''Order'' ''k3'' ''total'' ()]
   = Inr \<lparr> transactionItemList =
             [Put [(''Item'', ''User'')], Put [(''Item'', ''lock'')],
              Delete [(''Key'', ''k2'')],
              Update [(''Key'', ''k3''), (''UpdateExpression'', ''total'')]],
           lazyTransactionWriteItemListLoader = [''k1''] \<rparr>
   \<and> (\<exists>cs. map (classify example_transformers)
          [AddCreate ''User'' (), AddUpdate ''User'' ''k1'' ''email'' (), AddDelete ''Order'' ''k2'' (),
           AddUpdate ''Order'' ''k3'' ''total'' ()] = map Some cs
        \<and> [Put [(''Item'', ''User'')], Put [(''Item'', ''lock'')],
              Delete [(''Key'', ''k2'')],
              Update [(''Key'', ''k3''), (''UpdateExpression'', ''total'')]]
            = concat (map operations_part cs)
        \<and> [''k1''] = concat (map deferred_part cs))"
proof -
  from write_items_classified[THEN conjunct1, THEN mp, OF example_write]
  obtain cs where cs: "map (classify example_transformers)
          [AddCreate ''User'' (), AddUpdate ''User'' ''k1'' ''email'' (), AddDelete ''Order'' ''k2'' (),
           AddUpdate ''Order'' ''k3'' ''total'' ()] = map Some cs"
    "transactionItemList \<lparr> transactionItemList =
             [Put [(''Item'', ''User'')], Put [(''Item'', ''lock'')],
              Delete [(''Key'', ''k2'')],
              Update [(''Key'', ''k3''), (''UpdateExpression'', ''total'')]],
           lazyTransactionWriteItemListLoader = [''k1''] \<rparr> = concat (map operations_part cs)"
    "lazyTransactionWriteItemListLoader \<lparr> transactionItemList =
             [Put [(''Item'', ''User'')], Put [(''Item'', ''lock'')],
              Delete [(''Key'', ''k2'')],
              Update [(''Key'', ''k3''), (''UpdateExpression'', ''total'')]],
           lazyTransactionWriteItemListLoader = [''k1''] \<rparr> = concat (map deferred_part cs)"
    by blast
  from cs(2) have o: "[Put [(''Item'', ''User'')], Put [(''Item'', ''lock'')],
              Delete [(''Key'', ''k2'')],
              Update [(''Key'', ''k3''), (''UpdateExpression'', ''total'')]]
            = concat (map operations_part cs)" by simp
  from cs(3) have d: "[''k1''] = concat (map deferred_part cs)" by simp
  from cs(1) o d example_write show ?thesis by blast
qed

text \<open>
  Claim C10. When \<^verbatim>\<open>toDynamoUpdateItem\<close> returns an update input \<open>out\<close> (not a
  lazy loader), the step appends exactly one operation to the list,
  \<^verbatim>\<open>Update\<close> of \<open>out\<close> without its property \<^verbatim>\<open>ReturnValues\<close>: that property is
  absent from the operation, every other property has the value it has in \<open>out\<close>, and
  the properties keep their order.
\<close>

theorem update_drops_ReturnValues:
  "toDynamoUpdateItem T item pk body options = Inr (Input out) \<Longrightarrow>
   write_step T acc (AddUpdate item pk body options) =
     Inr (acc\<lparr> transactionItemList :=
                 transactionItemList acc @ [Update (dropProp out ''ReturnValues'')] \<rparr>)
   \<and> map_of (dropProp out ''ReturnValues'') ''ReturnValues'' = None
   \<and> (\<forall>p. p \<noteq> ''ReturnValues'' \<longrightarrow> map_of (dropProp out ''ReturnValues'') p = map_of out p)
   \<and> dropProp out ''ReturnValues'' = filter (\<lambda>kv. fst kv \<noteq> ''ReturnValues'') out"
  by (simp add: map_of_dropProp) (simp add: dropProp_def)

theorem update_drops_ReturnValues_witness:
  "toDynamoUpdateItem example_transformers ''Order'' ''k3'' ''total'' ()
     = Inr (Input [(''Key'', ''k3''), (''ReturnValues'', ''ALL_NEW''), (''UpdateExpression'', ''total'')])
   \<and> write_step example_transformers
       \<lparr> transactionItemList = [Put [(''Item'', ''Order'')]], lazyTransactionWriteItemListLoader = [] \<rparr>
       (AddUpdate ''Order'' ''k3'' ''total'' ())
     = Inr \<lparr> transactionItemList =
               [Put [(''Item'', ''Order'')],
                Update [(''Key'', ''k3''), (''UpdateExpression'', ''total'')]],
             lazyTransactionWriteItemListLoader = [] \<rparr>"
proof -
  have t: "toDynamoUpdateItem example_transformers ''Order'' ''k3'' ''total'' ()
     = Inr (Input [(''Key'', ''k3''), (''ReturnValues'', ''ALL_NEW''), (''UpdateExpression'', ''total'')])"
    by (simp add: example_transformers_def)
  from update_drops_ReturnValues[OF t,
      of "\<lparr> transactionItemList = [Put [(''Item'', ''Order'')]],
            lazyTransactionWriteItemListLoader = [] \<rparr>"] t
  show ?thesis by simp
qed

section \<open>Properties of the composition\<close>

lemma compose_write_transaction_resolved:
  "innerTransformTransactionWriteItems T items = Inr acc \<Longrightarrow>
   resolve_all resolve (lazyTransactionWriteItemListLoader acc) w = (Inr resolved, w') \<Longrightarrow>
   compose_write_transaction T resolve maxItems submit items w =
     (if maxItems < length (transactionItemList acc @ resolved)
      then (Inl (SizeLimitExceeded (length (transactionItemList acc @ resolved))), w')
      else (Inr (fst (submit (transactionItemList acc @ resolved) w')),
            snd (submit (transactionItemList acc @ resolved) w')))"
  by (simp add: compose_write_transaction_def Let_def split: prod.splits)

text \<open>
  Claim C8. Take a write transaction whose items are transformed, with the accumulator
  \<open>acc\<close>, and whose pending expansions are all resolved, giving the operations
  \<open>resolved\<close> and the world \<open>w'\<close> after the reads. If the final operation list, the
  transformed operations followed by the resolved ones, is longer than the store's
  maximum (in particular if the transformed operation list alone is), the composition
  fails with the size-limit error. Nothing is submitted: the result and the world are
  the same for every executor \<open>submit\<close>, and the world is the one the reads left.
\<close>

theorem compose_write_transaction_size_limit:
  "innerTransformTransactionWriteItems T items = Inr acc \<Longrightarrow>
   resolve_all resolve (lazyTransactionWriteItemListLoader acc) w = (Inr resolved, w') \<Longrightarrow>
   (maxItems < length (transactionItemList acc @ resolved)
      \<longrightarrow> compose_write_transaction T resolve maxItems submit items w
            = (Inl (SizeLimitExceeded (length (transactionItemList acc @ resolved))), w'))
   \<and> (maxItems < length (transactionItemList acc)
      \<longrightarrow> compose_write_transaction T resolve maxItems submit items w
            = (Inl (SizeLimitExceeded (length (transactionItemList acc @ resolved))), w'))"
  by (simp add: compose_write_transaction_resolved)

text \<open>
  Four items give four direct operations and one expansion, resolved by one read into two
  more. With a bound of five the six operations are refused and no batch is recorded;
  with a bound of six the same transaction is submitted.
\<close>

theorem compose_write_transaction_size_limit_witness:
  "innerTransformTransactionWriteItems example_transformers
     [AddCreate ''User'' (), AddUpdate ''User'' ''k1'' ''email'' (), AddDelete ''Order'' ''k2'' (),
      AddUpdate ''Order'' ''k3'' ''total'' ()]
   = Inr \<lparr> transactionItemList =
             [Put [(''Item'', ''User'')], Put [(''Item'', ''lock'')],
              Delete [(''Key'', ''k2'')],
              Update [(''Key'', ''k3''), (''UpdateExpression'', ''total'')]],
           lazyTransactionWriteItemListLoader = [''k1''] \<rparr>
   \<and> resolve_all example_resolve [''k1''] \<lparr> reads = 0, submitted = [] \<rparr>
     = (Inr [Delete [(''Key'', ''k1'')], Delete [(''Key'', ''lock'')]],
        \<lparr> reads = 1, submitted = [] \<rparr>)
   \<and> compose_write_transaction example_transformers example_resolve 5 example_submit
       [AddCreate ''User'' (), AddUpdate ''User'' ''k1'' ''email'' (), AddDelete ''Order'' ''k2'' (),
        AddUpdate ''Order'' ''k3'' ''total'' ()]
       \<lparr> reads = 0, submitted = [] \<rparr>
     = (Inl (SizeLimitExceeded 6), \<lparr> reads = 1, submitted = [] \<rparr>)
   \<and> compose_write_transaction example_transformers example_resolve 6 example_submit
       [AddCreate ''User'' (), AddUpdate ''User'' ''k1'' ''email'' (), AddDelete ''Order'' ''k2'' (),
        AddUpdate ''Order'' ''k3'' ''total'' ()]
       \<lparr> reads = 0, submitted = [] \<rparr>
     = (Inr (),
        \<lparr> reads = 1,
          submitted = [[Put [(''Item'', ''User'')], Put [(''Item'', ''lock'')],
                        Delete [(''Key'', ''k2'')],
                        Update [(''Key'', ''k3''), (''UpdateExpression'', ''total'')],
                        Delete [(''Key'', ''k1'')], Delete [(''Key'', ''lock'')]]] \<rparr>)"
proof -
  let ?items = "[AddCreate ''User'' (), AddUpdate ''User'' ''k1'' ''email'' (),
                 AddDelete ''Order'' ''k2'' (), AddUpdate ''Order'' ''k3'' ''total'' ()]"
  let ?acc = "\<lparr> transactionItemList =
             [Put [(''Item'', ''User'')], Put [(''Item'', ''lock'')],
              Delete [(''Key'', ''k2'')],
              Update [(''Key'', ''k3''), (''UpdateExpression'', ''total'')]],
           lazyTransactionWriteItemListLoader = [''k1''] \<rparr>"
  have r: "resolve_all example_resolve (lazyTransactionWriteItemListLoader ?acc)
             \<lparr> reads = 0, submitted = [] \<rparr>
     = (Inr [Delete [(''Key'', ''k1'')], Delete [(''Key'', ''lock'')]],
        \<lparr> reads = 1, submitted = [] \<rparr>)"
    by (simp add: example_resolve_def)
  have r': "resolve_all example_resolve [''k1''] \<lparr> reads = 0, submitted = [] \<rparr>
     = (Inr [Delete [(''Key'', ''k1'')], Delete [(''Key'', ''lock'')]],
        \<lparr> reads = 1, submitted = [] \<rparr>)"
    using r by simp
  from compose_write_transaction_size_limit[OF example_write r, of 5 example_submit]
  have over: "compose_write_transaction example_transformers example_resolve 5 example_submit
       ?items \<lparr> reads = 0, submitted = [] \<rparr>
     = (Inl (SizeLimitExceeded 6), \<lparr> reads = 1, submitted = [] \<rparr>)"
    by simp
  have within: "compose_write_transaction example_transformers example_resolve 6 example_submit
       ?items \<lparr> reads = 0, submitted = [] \<rparr>
     = (Inr (),
        \<lparr> reads = 1,
          submitted = [[Put [(''Item'', ''User'')], Put [(''Item'', ''lock'')],
                        Delete [(''Key'', ''k2'')],
                        Update [(''Key'', ''k3''), (''UpdateExpression'', ''total'')],
                        Delete [(''Key'', ''k1'')], Delete [(''Key'', ''lock'')]]] \<rparr>)"
    by (simp add: compose_write_transaction_resolved[OF example_write r] example_submit_def)
  from example_write r' over within show ?thesis by (intro conjI)
qed

end
